theory Spec2Isabelle
  imports Main
begin

section \<open>Data model\<close>

text \<open>
  The types of the town socket protocol that the controller reads. A grid position is
  declared as \<open>0 | 1 | 2\<close> in the protocol; it is kept as a natural number here, so
  that the behaviour of the array writes outside that range stays visible, and the
  range is a predicate (\<open>in_grid\<close>) on moves.
\<close>

datatype GameStatus = IN_PROGRESS | WAITING_TO_START | OVER

datatype GamePiece = Piece_X | Piece_O

type_synonym TicTacToeCell = "GamePiece option"

type_synonym Board = "TicTacToeCell list list"

type_synonym PlayerID = string

type_synonym GameInstanceID = string

record TicTacToeMove =
  move_gamePiece :: GamePiece
  row :: nat
  col :: nat

record TicTacToeGameState =
  moves :: "TicTacToeMove list"
  state_x :: "PlayerID option"
  state_o :: "PlayerID option"
  state_winner :: "PlayerID option"
  state_status :: GameStatus

record GameInstance =
  state :: TicTacToeGameState
  game_id :: GameInstanceID

record GameArea =
  game :: "GameInstance option"
  occupants :: "PlayerID list"

text \<open>
  A \<open>PlayerController\<close> is an object: \<open>ref\<close> is its identity and \<open>player_id\<close> its
  (read-only) identifier. Two controllers are the same object (\<open>===\<close>) exactly when
  they are equal as records, two distinct objects carrying the same identifier differ
  in \<open>ref\<close>.
\<close>

record PlayerController =
  ref :: nat
  player_id :: PlayerID

text \<open>
  The state of a \<open>TicTacToeAreaController\<close>: the fields \<open>_model\<close>, \<open>_players\<close>
  (read through \<open>this.players\<close>) and \<open>_instanceID\<close>, and the local player that
  \<open>_townController.ourPlayer\<close> yields, if any.
\<close>

record TicTacToeAreaController =
  model :: GameArea
  players :: "PlayerController list"
  instanceID :: "GameInstanceID option"
  ourPlayer :: "PlayerController option"

text \<open>Errors are \<open>Error\<close> objects with their message, or the runtime's \<open>TypeError\<close>.\<close>

datatype error = Error string | TypeError

definition PLAYER_NOT_IN_GAME_ERROR :: string where
  "PLAYER_NOT_IN_GAME_ERROR = ''Player is not in game''"

definition NO_GAME_IN_PROGRESS_ERROR :: string where
  "NO_GAME_IN_PROGRESS_ERROR = ''No game in progress''"

text \<open>
  The test \<open>v && ...\<close> (and \<open>!v\<close>) on an optional string: \<open>undefined\<close> and the empty
  string are falsy.
\<close>

definition truthy :: "string option \<Rightarrow> bool" where
  "truthy v = (case v of None \<Rightarrow> False | Some s \<Rightarrow> s \<noteq> [])"

section \<open>Queries\<close>

text \<open>\<open>this._model.game?.state\<close>\<close>

definition gameState :: "TicTacToeAreaController \<Rightarrow> TicTacToeGameState option" where
  "gameState c = (case game (model c) of None \<Rightarrow> None | Some g \<Rightarrow> Some (state g))"

text \<open>\<open>this._model.game?.state.moves || []\<close>\<close>

definition model_moves :: "TicTacToeAreaController \<Rightarrow> TicTacToeMove list" where
  "model_moves c = (case gameState c of None \<Rightarrow> [] | Some gs \<Rightarrow> moves gs)"

text \<open>\<open>this._model.game?.state.x\<close> and \<open>this._model.game?.state.o\<close>\<close>

definition roleX :: "TicTacToeAreaController \<Rightarrow> PlayerID option" where
  "roleX c = (case gameState c of None \<Rightarrow> None | Some gs \<Rightarrow> state_x gs)"

definition roleO :: "TicTacToeAreaController \<Rightarrow> PlayerID option" where
  "roleO c = (case gameState c of None \<Rightarrow> None | Some gs \<Rightarrow> state_o gs)"

definition empty_board :: Board where
  "empty_board = [[None, None, None], [None, None, None], [None, None, None]]"

text \<open>
  The assignment \<open>a[i] = v\<close> on an array: inside the array the element is replaced,
  beyond its end the array grows, the skipped indices being holes (which read as
  \<open>undefined\<close>). A number from \<open>2^32 - 1\<close> on is no array index: the value becomes a
  plain property of the array object, which neither the length of the array nor its
  elements nor \<open>JSON.stringify\<close> show, and the list of elements stays as it is.
\<close>

definition array_set :: "TicTacToeCell list \<Rightarrow> nat \<Rightarrow> TicTacToeCell \<Rightarrow> TicTacToeCell list" where
  "array_set a i v =
     (if i < length a then a[i := v]
      else if i < 4294967295 then a @ replicate (i - length a) None @ [v]
      else a)"

text \<open>
  The loop of \<open>board\<close>. \<open>board[row]\<close> is \<open>undefined\<close> for a row the outer array
  does not have, and the assignment to its element then raises a \<open>TypeError\<close>.
\<close>

fun board_loop :: "Board \<Rightarrow> TicTacToeMove list \<Rightarrow> error + Board" where
  "board_loop b [] = Inr b"
| "board_loop b (currMove # rest) =
     (if row currMove < length b
      then board_loop
             (b[row currMove :=
                  array_set (b ! row currMove) (col currMove) (Some (move_gamePiece currMove))])
             rest
      else Inl TypeError)"

definition board :: "TicTacToeAreaController \<Rightarrow> error + Board" where
  "board c = board_loop empty_board (model_moves c)"

text \<open>
  The getters \<open>x\<close> and \<open>o\<close>: the first player of the roster whose identifier is
  the X (the O) identifier of the game, \<open>undefined\<close> if there is none.
\<close>

definition x_player :: "TicTacToeAreaController \<Rightarrow> PlayerController option" where
  "x_player c = find (\<lambda>player. roleX c = Some (player_id player)) (players c)"

definition o_player :: "TicTacToeAreaController \<Rightarrow> PlayerController option" where
  "o_player c = find (\<lambda>player. roleO c = Some (player_id player)) (players c)"

definition moveCount :: "TicTacToeAreaController \<Rightarrow> nat" where
  "moveCount c = length (model_moves c)"

definition winner :: "TicTacToeAreaController \<Rightarrow> PlayerController option" where
  "winner c =
     find (\<lambda>player. (case gameState c of None \<Rightarrow> None | Some gs \<Rightarrow> state_winner gs)
                       = Some (player_id player))
          (players c)"

text \<open>The \<open>for\<close> loop of \<open>whoseTurn\<close> over the roster, \<open>n\<close> being \<open>this.moveCount\<close>.\<close>

fun whoseTurn_loop ::
  "nat \<Rightarrow> TicTacToeGameState \<Rightarrow> PlayerController list \<Rightarrow> PlayerController option" where
  "whoseTurn_loop n gs [] = None"
| "whoseTurn_loop n gs (player # rest) =
     (if n mod 2 = 0 \<and> truthy (state_x gs) \<and> Some (player_id player) = state_x gs
      then Some player
      else if n mod 2 \<noteq> 0 \<and> truthy (state_o gs) \<and> Some (player_id player) = state_o gs
      then Some player
      else whoseTurn_loop n gs rest)"

definition whoseTurn :: "TicTacToeAreaController \<Rightarrow> PlayerController option" where
  "whoseTurn c =
     (case gameState c of
        None \<Rightarrow> None
      | Some gs \<Rightarrow>
          if state_status gs = IN_PROGRESS
          then whoseTurn_loop (moveCount c) gs (players c)
          else None)"

definition isOurTurn :: "TicTacToeAreaController \<Rightarrow> bool" where
  "isOurTurn c =
     (case gameState c of
        None \<Rightarrow> False
      | Some gs \<Rightarrow>
          if state_status gs \<noteq> IN_PROGRESS then False
          else ourPlayer c = whoseTurn c)"

text \<open>\<open>this._townController.ourPlayer?.id\<close>\<close>

definition ourPlayer_id :: "TicTacToeAreaController \<Rightarrow> PlayerID option" where
  "ourPlayer_id c = (case ourPlayer c of None \<Rightarrow> None | Some p \<Rightarrow> Some (player_id p))"

definition isPlayer :: "TicTacToeAreaController \<Rightarrow> bool" where
  "isPlayer c = (roleX c = ourPlayer_id c \<or> roleO c = ourPlayer_id c \<or> False)"

definition gamePiece :: "TicTacToeAreaController \<Rightarrow> error + GamePiece" where
  "gamePiece c =
     (if \<not> isPlayer c then Inl (Error PLAYER_NOT_IN_GAME_ERROR)
      else Inr (if ourPlayer c = x_player c then Piece_X else Piece_O))"

definition status :: "TicTacToeAreaController \<Rightarrow> GameStatus" where
  "status c = (case gameState c of None \<Rightarrow> WAITING_TO_START | Some gs \<Rightarrow> state_status gs)"

definition isActive :: "TicTacToeAreaController \<Rightarrow> bool" where
  "isActive c = (if status c = IN_PROGRESS then True else False)"

section \<open>The update protocol\<close>

text \<open>
  \<open>JSON.stringify\<close> on a board: an array is its elements separated by commas inside
  brackets, a piece is a quoted string, and \<open>undefined\<close> (or a hole) inside an array
  is written \<open>null\<close>.
\<close>

definition stringify_cell :: "TicTacToeCell \<Rightarrow> string" where
  "stringify_cell v =
     (case v of
        None \<Rightarrow> ''null''
      | Some Piece_X \<Rightarrow> [CHR 0x22, CHR ''X'', CHR 0x22]
      | Some Piece_O \<Rightarrow> [CHR 0x22, CHR ''O'', CHR 0x22])"

fun join_commas :: "string list \<Rightarrow> string" where
  "join_commas [] = []"
| "join_commas [s] = s"
| "join_commas (s # t # ss) = s @ '','' @ join_commas (t # ss)"

definition stringify_array :: "string list \<Rightarrow> string" where
  "stringify_array ss = ''['' @ join_commas ss @ '']''"

definition JSON_stringify :: "Board \<Rightarrow> string" where
  "JSON_stringify b = stringify_array (map (\<lambda>r. stringify_array (map stringify_cell r)) b)"

text \<open>
  The events of the controller: those of the base class (\<open>GameEventTypes\<close>) and the two
  that \<open>TicTacToeEvents\<close> adds.
\<close>

datatype GameEvent = gameUpdated | gameEnd

datatype TicTacToeEvent = baseEvent GameEvent | boardChanged Board | turnChanged bool

text \<open>
  What an update receives from outside this class: the roster that the town
  controller resolves for the new model, the instance identifier the base class keeps
  afterwards, and the events the base class emits.
\<close>

record BaseUpdate =
  new_players :: "PlayerController list"
  new_instanceID :: "GameInstanceID option"
  base_events :: "GameEvent list"

text \<open>
  Modelled from the spec: \<open>super._updateFrom\<close> of the base class
  \<open>GameAreaController\<close>, whose source is not among the files at hand. It replaces
  the current snapshot with the new one (the comment on \<open>_updateFrom\<close> says as much:
  it updates the common properties, \<open>this._model\<close> included) and refreshes the shared
  state the update carries (the roster, the instance identifier); which of its own
  events it emits is decided by the base class.
\<close>

definition super_updateFrom ::
  "BaseUpdate \<Rightarrow> TicTacToeAreaController \<Rightarrow> GameArea
     \<Rightarrow> TicTacToeAreaController \<times> TicTacToeEvent list" where
  "super_updateFrom ext c newModel =
     (c\<lparr>model := newModel, players := new_players ext, instanceID := new_instanceID ext\<rparr>,
      map baseEvent (base_events ext))"

text \<open>\<open>this.whoseTurn?.id\<close>\<close>

definition whoseTurn_id :: "TicTacToeAreaController \<Rightarrow> PlayerID option" where
  "whoseTurn_id c = (case whoseTurn c of None \<Rightarrow> None | Some p \<Rightarrow> Some (player_id p))"

text \<open>
  \<open>_updateFrom\<close> returns how it ended (normally, or with the error thrown), the
  controller afterwards and the events emitted, in order.
\<close>

definition updateFrom ::
  "BaseUpdate \<Rightarrow> TicTacToeAreaController \<Rightarrow> GameArea
     \<Rightarrow> (error + unit) \<times> TicTacToeAreaController \<times> TicTacToeEvent list" where
  "updateFrom ext c newModel =
     (case board c of
        Inl e \<Rightarrow> (Inl e, c, [])
      | Inr oldBoard \<Rightarrow>
          let oldTurn = whoseTurn_id c;
              (c', evs) = super_updateFrom ext c newModel
          in (case board c' of
                Inl e \<Rightarrow> (Inl e, c', evs)
              | Inr newBoard \<Rightarrow>
                  let newTurn = whoseTurn_id c';
                      evs1 = (if JSON_stringify oldBoard \<noteq> JSON_stringify newBoard
                              then evs @ [boardChanged newBoard] else evs);
                      evs2 = (if oldTurn \<noteq> newTurn
                              then evs1 @ [turnChanged (isOurTurn c')] else evs1)
                  in (Inr (), c', evs2)))"

section \<open>Sending a move\<close>

text \<open>The \<open>GameMove\<close> command handed to \<open>sendInteractableCommand\<close>.\<close>

record GameMoveCommand =
  gameID :: GameInstanceID
  move :: TicTacToeMove

text \<open>
  \<open>makeMove\<close>, given the command channel \<open>send\<close> (the outcome the town controller
  reports for a command). The result is the outcome of the call, and the commands
  that were handed to the channel. \<open>!instanceID\<close> holds for \<open>undefined\<close> and for the
  empty string; the getter \<open>gamePiece\<close> is read while the command is built, before the
  channel is called.
\<close>

definition makeMove ::
  "(GameInstanceID \<Rightarrow> GameMoveCommand \<Rightarrow> error + unit) \<Rightarrow> TicTacToeAreaController
     \<Rightarrow> nat \<Rightarrow> nat \<Rightarrow> (error + unit) \<times> (GameInstanceID \<times> GameMoveCommand) list" where
  "makeMove send c r k =
     (case game (model c) of
        None \<Rightarrow> (Inl (Error NO_GAME_IN_PROGRESS_ERROR), [])
      | Some g \<Rightarrow>
          (case instanceID c of
             None \<Rightarrow> (Inl (Error ''Instance ID is undefined''), [])
           | Some inst \<Rightarrow>
               if inst = [] then (Inl (Error ''Instance ID is undefined''), [])
               else (case gamePiece c of
                       Inl e \<Rightarrow> (Inl e, [])
                     | Inr p \<Rightarrow>
                         let command = \<lparr>gameID = game_id g,
                                        move = \<lparr>move_gamePiece = p, row = r, col = k\<rparr>\<rparr>
                         in (send inst command, [(inst, command)]))))"

section \<open>Well-typed moves and the board of the specification\<close>

text \<open>A move is well typed when its row and column are grid positions (0, 1 or 2).\<close>

definition in_grid :: "TicTacToeMove \<Rightarrow> bool" where
  "in_grid m = (row m < 3 \<and> col m < 3)"

text \<open>A model is well typed when all the moves of its game, if it has one, are.\<close>

definition grid_moves :: "GameArea \<Rightarrow> bool" where
  "grid_moves a = (case game a of None \<Rightarrow> True | Some g \<Rightarrow> list_all in_grid (moves (state g)))"

definition is_grid :: "Board \<Rightarrow> bool" where
  "is_grid b = (length b = 3 \<and> list_all (\<lambda>r. length r = 3) b)"

text \<open>
  \<open>deriveBoard\<close> as the specification words it: start from the all-empty grid and
  replay the moves in order, writing each move's piece into its cell.
\<close>

definition place :: "Board \<Rightarrow> TicTacToeMove \<Rightarrow> Board" where
  "place b m = b[row m := (b ! row m)[col m := Some (move_gamePiece m)]]"

definition deriveBoard :: "TicTacToeMove list \<Rightarrow> Board" where
  "deriveBoard ms = foldl place empty_board ms"

text \<open>The piece of the last move that targets a cell, if any move does.\<close>

definition last_piece_at :: "TicTacToeMove list \<Rightarrow> nat \<Rightarrow> nat \<Rightarrow> TicTacToeCell" where
  "last_piece_at ms r k =
     (case find (\<lambda>m. row m = r \<and> col m = k) (rev ms) of
        None \<Rightarrow> None
      | Some m \<Rightarrow> Some (move_gamePiece m))"

section \<open>Observing an update\<close>

definition is_boardChanged :: "TicTacToeEvent \<Rightarrow> bool" where
  "is_boardChanged e = (case e of boardChanged b \<Rightarrow> True | _ \<Rightarrow> False)"

definition is_turnChanged :: "TicTacToeEvent \<Rightarrow> bool" where
  "is_turnChanged e = (case e of turnChanged t \<Rightarrow> True | _ \<Rightarrow> False)"

text \<open>The controller as the base class leaves it: the post-update state.\<close>

definition after_super ::
  "BaseUpdate \<Rightarrow> TicTacToeAreaController \<Rightarrow> GameArea \<Rightarrow> TicTacToeAreaController" where
  "after_super ext c newModel = fst (super_updateFrom ext c newModel)"

section \<open>Example states\<close>

definition alice :: PlayerController where
  "alice = \<lparr>ref = 1, player_id = ''alice''\<rparr>"

definition bob :: PlayerController where
  "bob = \<lparr>ref = 2, player_id = ''bob''\<rparr>"

definition sample_area :: "TicTacToeMove list \<Rightarrow> GameStatus \<Rightarrow> GameArea" where
  "sample_area ms st =
     \<lparr>game = Some \<lparr>state = \<lparr>moves = ms, state_x = Some ''alice'', state_o = Some ''bob'',
                                state_winner = None, state_status = st\<rparr>,
                     game_id = ''game-1''\<rparr>,
      occupants = [''alice'', ''bob'']\<rparr>"

definition sample_controller :: "GameArea \<Rightarrow> TicTacToeAreaController" where
  "sample_controller a =
     \<lparr>model = a, players = [alice, bob], instanceID = Some ''game-1'', ourPlayer = Some alice\<rparr>"

definition three_moves :: "TicTacToeMove list" where
  "three_moves =
     [\<lparr>move_gamePiece = Piece_X, row = 0, col = 0\<rparr>,
      \<lparr>move_gamePiece = Piece_O, row = 1, col = 2\<rparr>,
      \<lparr>move_gamePiece = Piece_O, row = 0, col = 0\<rparr>]"

text \<open>
  A game in progress whose X identifier is the empty string, with a roster player of
  that identifier.
\<close>

definition blank_controller :: TicTacToeAreaController where
  "blank_controller =
     \<lparr>model = \<lparr>game = Some \<lparr>state = \<lparr>moves = [], state_x = Some [], state_o = None,
                                          state_winner = None, state_status = IN_PROGRESS\<rparr>,
                               game_id = ''game-1''\<rparr>,
                occupants = []\<rparr>,
      players = [\<lparr>ref = 1, player_id = []\<rparr>],
      instanceID = Some ''game-1'',
      ourPlayer = Some \<lparr>ref = 1, player_id = []\<rparr>\<rparr>"

text \<open>Alice holds X, but the roster does not resolve her identifier.\<close>

definition unresolved_controller :: TicTacToeAreaController where
  "unresolved_controller =
     \<lparr>model = sample_area [] IN_PROGRESS, players = [], instanceID = Some ''game-1'',
      ourPlayer = Some alice\<rparr>"

text \<open>A command channel that accepts every command.\<close>

definition accept_all :: "GameInstanceID \<Rightarrow> GameMoveCommand \<Rightarrow> error + unit" where
  "accept_all inst command = Inr ()"

text \<open>Carol watches the game of Alice and Bob.\<close>

definition spectator_controller :: TicTacToeAreaController where
  "spectator_controller =
     \<lparr>model = sample_area [] IN_PROGRESS, players = [alice, bob],
      instanceID = Some ''game-1'', ourPlayer = Some \<lparr>ref = 3, player_id = ''carol''\<rparr>\<rparr>"

definition no_game_controller :: TicTacToeAreaController where
  "no_game_controller =
     \<lparr>model = \<lparr>game = None, occupants = [''alice'']\<rparr>, players = [],
      instanceID = Some ''game-1'', ourPlayer = Some alice\<rparr>"

definition unattached_controller :: TicTacToeAreaController where
  "unattached_controller =
     \<lparr>model = sample_area [] IN_PROGRESS, players = [alice, bob],
      instanceID = None, ourPlayer = Some alice\<rparr>"

definition sample_base :: BaseUpdate where
  "sample_base =
     \<lparr>new_players = [alice, bob], new_instanceID = Some ''game-1'', base_events = [gameUpdated]\<rparr>"

section \<open>The board\<close>

lemmas sample_defs = alice_def bob_def sample_area_def sample_controller_def three_moves_def

lemma is_grid_empty_board: "is_grid empty_board"
  by (simp add: is_grid_def empty_board_def)

lemma is_grid_row: "is_grid b \<Longrightarrow> r < 3 \<Longrightarrow> length (b ! r) = 3"
  by (simp add: is_grid_def list_all_length)

lemma is_grid_place: "is_grid b \<Longrightarrow> is_grid (place b m)"
  by (cases "row m < length b")
     (auto simp: is_grid_def place_def list_all_length nth_list_update)

lemma board_step_place:
  assumes "is_grid b" "in_grid m"
  shows "b[row m := array_set (b ! row m) (col m) (Some (move_gamePiece m))] = place b m"
  using assms by (simp add: array_set_def place_def in_grid_def is_grid_row)

lemma board_loop_foldl:
  "is_grid b \<Longrightarrow> list_all in_grid ms \<Longrightarrow> board_loop b ms = Inr (foldl place b ms)"
proof (induction ms arbitrary: b)
  case Nil
  then show ?case by simp
next
  case (Cons m ms)
  from Cons.prems have m: "in_grid m" and ms: "list_all in_grid ms" by simp_all
  from Cons.prems(1) m have lt: "row m < length b" by (simp add: is_grid_def in_grid_def)
  have "board_loop b (m # ms) = board_loop (place b m) ms"
    using lt board_step_place [OF Cons.prems(1) m] by simp
  also have "\<dots> = Inr (foldl place (place b m) ms)"
    by (rule Cons.IH [OF is_grid_place [OF Cons.prems(1)] ms])
  finally show ?case by simp
qed

lemma is_grid_foldl: "is_grid b \<Longrightarrow> is_grid (foldl place b ms)"
  by (induction ms arbitrary: b) (simp_all add: is_grid_place)

lemma place_nth:
  "is_grid b \<Longrightarrow> r < 3 \<Longrightarrow> k < 3 \<Longrightarrow>
     place b m ! r ! k = (if row m = r \<and> col m = k then Some (move_gamePiece m) else b ! r ! k)"
  by (cases "row m < length b")
     (auto simp: place_def is_grid_def list_all_length nth_list_update)

lemma last_piece_at_snoc:
  "last_piece_at (ms @ [m]) r k =
     (if row m = r \<and> col m = k then Some (move_gamePiece m) else last_piece_at ms r k)"
  by (simp add: last_piece_at_def)

lemma foldl_place_nth:
  "is_grid b \<Longrightarrow> r < 3 \<Longrightarrow> k < 3 \<Longrightarrow>
     foldl place b ms ! r ! k =
       (case last_piece_at ms r k of None \<Rightarrow> b ! r ! k | Some p \<Rightarrow> Some p)"
proof (induction ms rule: rev_induct)
  case Nil
  then show ?case by (simp add: last_piece_at_def)
next
  case (snoc m ms)
  have g: "is_grid (foldl place b ms)" by (rule is_grid_foldl [OF snoc.prems(1)])
  show ?case
    using snoc place_nth [OF g snoc.prems(2,3), of m]
    by (simp add: last_piece_at_snoc)
qed

lemma deriveBoard_nth:
  "r < 3 \<Longrightarrow> k < 3 \<Longrightarrow> deriveBoard ms ! r ! k = last_piece_at ms r k"
  using foldl_place_nth [OF is_grid_empty_board, of r k ms]
  by (cases r; cases k) (auto simp: deriveBoard_def empty_board_def nth_Cons' split: option.splits)

lemma board_deriveBoard:
  "list_all in_grid (model_moves c) \<Longrightarrow> board c = Inr (deriveBoard (model_moves c))"
  by (simp add: board_def deriveBoard_def board_loop_foldl [OF is_grid_empty_board])

lemma last_piece_at_unvisited:
  "\<forall>m\<in>set ms. \<not> (row m = r \<and> col m = k) \<Longrightarrow> last_piece_at ms r k = None"
  by (simp add: last_piece_at_def find_None_iff split: option.splits)

lemma last_piece_at_latest:
  "j < length ms \<Longrightarrow> row (ms ! j) = r \<Longrightarrow> col (ms ! j) = k \<Longrightarrow>
   \<forall>l. j < l \<and> l < length ms \<longrightarrow> \<not> (row (ms ! l) = r \<and> col (ms ! l) = k) \<Longrightarrow>
   last_piece_at ms r k = Some (move_gamePiece (ms ! j))"
proof (induction ms rule: rev_induct)
  case Nil
  then show ?case by simp
next
  case (snoc m ms)
  show ?case
  proof (cases "j = length ms")
    case True
    with snoc.prems show ?thesis by (simp add: last_piece_at_snoc)
  next
    case False
    with snoc.prems(1) have j: "j < length ms" by simp
    from snoc.prems(4) j have m: "\<not> (row m = r \<and> col m = k)"
      by (auto dest: spec [of _ "length ms"])
    have later: "\<forall>l. j < l \<and> l < length ms \<longrightarrow> \<not> (row (ms ! l) = r \<and> col (ms ! l) = k)"
    proof (intro allI impI)
      fix l assume l: "j < l \<and> l < length ms"
      then have "\<not> (row ((ms @ [m]) ! l) = r \<and> col ((ms @ [m]) ! l) = k)"
        using snoc.prems(4) by simp
      with l show "\<not> (row (ms ! l) = r \<and> col (ms ! l) = k)" by (simp add: nth_append)
    qed
    have "last_piece_at ms r k = Some (move_gamePiece (ms ! j))"
      using snoc.IH [OF j _ _ later] snoc.prems(2,3) j by (simp add: nth_append)
    with m j show ?thesis by (auto simp: last_piece_at_snoc nth_append)
  qed
qed

lemma is_grid_deriveBoard: "is_grid (deriveBoard ms)"
  by (simp add: deriveBoard_def is_grid_foldl is_grid_empty_board)

text \<open>
  Claim C3. For every moves sequence whose rows and columns are grid positions, the
  \<open>board\<close> query returns the grid that the specification's \<open>deriveBoard\<close> describes:
  a 3 by 3 grid, built from the all-empty grid by replaying the moves in order, in
  which every cell holds the piece of the last move that targets it and every cell
  that no move targets is empty. The grid depends on the model alone, so reading
  \<open>board\<close> again from the same model gives the same grid.
\<close>

theorem board_replays_moves:
  assumes "list_all in_grid (model_moves c)"
  shows "board c = Inr (deriveBoard (model_moves c))
         \<and> is_grid (deriveBoard (model_moves c))
         \<and> (\<forall>r<3. \<forall>k<3. deriveBoard (model_moves c) ! r ! k = last_piece_at (model_moves c) r k)
         \<and> (\<forall>r<3. \<forall>k<3. (\<forall>m\<in>set (model_moves c). \<not> (row m = r \<and> col m = k))
                \<longrightarrow> deriveBoard (model_moves c) ! r ! k = None)
         \<and> (\<forall>c'. model c' = model c \<longrightarrow> board c' = board c)"
proof (intro conjI)
  show "board c = Inr (deriveBoard (model_moves c))"
    by (rule board_deriveBoard [OF assms])
  show "is_grid (deriveBoard (model_moves c))"
    by (rule is_grid_deriveBoard)
  show "\<forall>r<3. \<forall>k<3. deriveBoard (model_moves c) ! r ! k = last_piece_at (model_moves c) r k"
    by (simp add: deriveBoard_nth)
  show "\<forall>r<3. \<forall>k<3. (\<forall>m\<in>set (model_moves c). \<not> (row m = r \<and> col m = k))
          \<longrightarrow> deriveBoard (model_moves c) ! r ! k = None"
    by (simp add: deriveBoard_nth last_piece_at_unvisited)
  show "\<forall>c'. model c' = model c \<longrightarrow> board c' = board c"
    by (simp add: board_def model_moves_def gameState_def)
qed

theorem board_replays_moves_witness:
  "list_all in_grid (model_moves (sample_controller (sample_area three_moves IN_PROGRESS)))
   \<and> board (sample_controller (sample_area three_moves IN_PROGRESS))
       = Inr [[Some Piece_O, None, None], [None, None, Some Piece_O], [None, None, None]]"
proof -
  have h: "list_all in_grid (model_moves (sample_controller (sample_area three_moves IN_PROGRESS)))"
    by (simp add: sample_defs model_moves_def gameState_def in_grid_def)
  show ?thesis
    using h board_replays_moves [OF h]
    by (simp add: sample_defs model_moves_def gameState_def deriveBoard_def place_def empty_board_def)
qed

text \<open>
  Claim C9. For every moves sequence whose rows and columns are grid positions, the
  \<open>board\<close> query returns a 3 by 3 grid and never throws, also when several moves
  target one cell: the cell then holds the piece of the latest of them.
\<close>

theorem board_never_throws:
  assumes "list_all in_grid (model_moves c)"
  shows "\<exists>b. board c = Inr b \<and> is_grid b \<and>
           (\<forall>i j. i < j \<and> j < length (model_moves c)
                  \<and> row (model_moves c ! i) = row (model_moves c ! j)
                  \<and> col (model_moves c ! i) = col (model_moves c ! j)
                  \<and> (\<forall>l. j < l \<and> l < length (model_moves c) \<longrightarrow>
                         \<not> (row (model_moves c ! l) = row (model_moves c ! j)
                            \<and> col (model_moves c ! l) = col (model_moves c ! j)))
               \<longrightarrow> b ! row (model_moves c ! j) ! col (model_moves c ! j)
                     = Some (move_gamePiece (model_moves c ! j)))"
proof (intro exI conjI allI impI)
  show "board c = Inr (deriveBoard (model_moves c))"
    by (rule board_deriveBoard [OF assms])
  show "is_grid (deriveBoard (model_moves c))"
    by (rule is_grid_deriveBoard)
next
  fix i j
  let ?ms = "model_moves c"
  assume a: "i < j \<and> j < length ?ms
             \<and> row (?ms ! i) = row (?ms ! j) \<and> col (?ms ! i) = col (?ms ! j)
             \<and> (\<forall>l. j < l \<and> l < length ?ms \<longrightarrow>
                    \<not> (row (?ms ! l) = row (?ms ! j) \<and> col (?ms ! l) = col (?ms ! j)))"
  then have j: "j < length ?ms" by simp
  with assms have "in_grid (?ms ! j)" by (simp add: list_all_length)
  then have r: "row (?ms ! j) < 3" and k: "col (?ms ! j) < 3" by (simp_all add: in_grid_def)
  have "last_piece_at ?ms (row (?ms ! j)) (col (?ms ! j)) = Some (move_gamePiece (?ms ! j))"
    using a by (intro last_piece_at_latest [OF j refl refl]) simp
  then show "deriveBoard ?ms ! row (?ms ! j) ! col (?ms ! j) = Some (move_gamePiece (?ms ! j))"
    by (simp add: deriveBoard_nth [OF r k])
qed

theorem board_never_throws_witness:
  "list_all in_grid (model_moves (sample_controller (sample_area three_moves OVER)))
   \<and> (\<exists>b. board (sample_controller (sample_area three_moves OVER)) = Inr b
          \<and> b ! 0 ! 0 = Some Piece_O)"
proof -
  let ?c = "sample_controller (sample_area three_moves OVER)"
  have ms: "model_moves ?c = three_moves"
    by (simp add: sample_defs model_moves_def gameState_def)
  have h: "list_all in_grid (model_moves ?c)"
    by (simp add: ms) (simp add: three_moves_def in_grid_def)
  from board_never_throws [OF h] obtain b where b: "board ?c = Inr b"
    and later: "\<forall>i j. i < j \<and> j < length (model_moves ?c)
                  \<and> row (model_moves ?c ! i) = row (model_moves ?c ! j)
                  \<and> col (model_moves ?c ! i) = col (model_moves ?c ! j)
                  \<and> (\<forall>l. j < l \<and> l < length (model_moves ?c) \<longrightarrow>
                         \<not> (row (model_moves ?c ! l) = row (model_moves ?c ! j)
                            \<and> col (model_moves ?c ! l) = col (model_moves ?c ! j)))
               \<longrightarrow> b ! row (model_moves ?c ! j) ! col (model_moves ?c ! j)
                     = Some (move_gamePiece (model_moves ?c ! j))"
    by blast
  from later [rule_format, of 0 2] have "b ! 0 ! 0 = Some Piece_O"
    by (simp add: ms) (simp add: three_moves_def)
  with h b show ?thesis by blast
qed

section \<open>Whose turn it is\<close>

lemma whoseTurn_loop_find:
  "whoseTurn_loop n gs ps =
     (if n mod 2 = 0
      then (if truthy (state_x gs) then find (\<lambda>player. state_x gs = Some (player_id player)) ps
            else None)
      else (if truthy (state_o gs) then find (\<lambda>player. state_o gs = Some (player_id player)) ps
            else None))"
  by (induction ps) auto

lemma find_never: "find (\<lambda>x. False) xs = None"
  by (induction xs) simp_all

text \<open>
  Claim C4. While the status is \<open>IN_PROGRESS\<close>, \<open>whoseTurn\<close> is to return the player
  holding role X when the number of moves is even and the player holding role O when
  it is odd, and no player when the status is not \<open>IN_PROGRESS\<close>. The code misses
  this where the identifier of the role is the empty string: \<open>whoseTurn\<close> tests
  \<open>gameState.x\<close> for truthiness, not for being defined. In the state below the game
  is in progress with no move made, the \<open>x\<close> query, \<open>isPlayer\<close> and \<open>gamePiece\<close> all
  take the player of that identifier for X, and yet \<open>whoseTurn\<close> returns no player
  and \<open>isOurTurn\<close> is false.
\<close>

theorem whoseTurn_empty_identifier:
  "status blank_controller = IN_PROGRESS \<and> even (moveCount blank_controller)
   \<and> x_player blank_controller = Some \<lparr>ref = 1, player_id = []\<rparr>
   \<and> isPlayer blank_controller
   \<and> gamePiece blank_controller = Inr Piece_X
   \<and> whoseTurn blank_controller = None
   \<and> \<not> isOurTurn blank_controller"
  by (simp add: blank_controller_def status_def gameState_def moveCount_def model_moves_def
      x_player_def roleX_def roleO_def whoseTurn_def truthy_def isPlayer_def ourPlayer_id_def
      gamePiece_def isOurTurn_def)

text \<open>
  In every state whose role identifiers are not the empty string, \<open>whoseTurn\<close> does
  return the player whom the roster holds for the role of the parity, and it returns
  no player whenever the status is not \<open>IN_PROGRESS\<close>.
\<close>

lemma whoseTurn_nonempty_identifiers:
  "(status c = IN_PROGRESS \<and> even (moveCount c) \<and> roleX c \<noteq> Some []
      \<longrightarrow> whoseTurn c = x_player c)
   \<and> (status c = IN_PROGRESS \<and> odd (moveCount c) \<and> roleO c \<noteq> Some []
      \<longrightarrow> whoseTurn c = o_player c)
   \<and> (status c \<noteq> IN_PROGRESS \<longrightarrow> whoseTurn c = None)"
proof (cases "gameState c")
  case None
  then show ?thesis by (simp add: status_def whoseTurn_def)
next
  case (Some gs)
  show ?thesis
  proof (cases "state_status gs = IN_PROGRESS")
    case False
    with Some show ?thesis by (simp add: status_def whoseTurn_def)
  next
    case True
    with Some have w: "whoseTurn c = whoseTurn_loop (moveCount c) gs (players c)"
      by (simp add: whoseTurn_def)
    from Some have r: "roleX c = state_x gs" "roleO c = state_o gs"
      by (simp_all add: roleX_def roleO_def)
    from Some True have st: "status c = IN_PROGRESS"
      by (simp add: status_def)
    show ?thesis
      unfolding w whoseTurn_loop_find x_player_def o_player_def r st
      by (cases "state_x gs"; cases "state_o gs")
         (simp_all add: truthy_def even_iff_mod_2_eq_zero find_never)
  qed
qed

text \<open>
  Claim C7. \<open>isOurTurn\<close> is true exactly when the status is \<open>IN_PROGRESS\<close> and the
  local player is the player that \<open>whoseTurn\<close> returns; so it is false whenever the
  status is not \<open>IN_PROGRESS\<close>.
\<close>

theorem isOurTurn_iff:
  "isOurTurn c = (status c = IN_PROGRESS \<and> ourPlayer c = whoseTurn c)
   \<and> (status c \<noteq> IN_PROGRESS \<longrightarrow> \<not> isOurTurn c)"
proof (cases "gameState c")
  case None
  then show ?thesis by (simp add: isOurTurn_def status_def)
next
  case (Some gs)
  then show ?thesis by (cases "state_status gs = IN_PROGRESS") (simp_all add: isOurTurn_def status_def)
qed

theorem isOurTurn_iff_witness:
  "status (sample_controller (sample_area [] OVER)) \<noteq> IN_PROGRESS
   \<and> \<not> isOurTurn (sample_controller (sample_area [] OVER))"
  using isOurTurn_iff [of "sample_controller (sample_area [] OVER)"]
  by (simp add: sample_defs status_def gameState_def)

section \<open>The local player's piece\<close>

lemma find_Some_holds: "find P xs = Some x \<Longrightarrow> P x"
  by (induction xs) (auto split: if_splits)

text \<open>
  Claim C5. For a local player who is a player in the game, \<open>gamePiece\<close> is to return
  X when the X identifier of the snapshot is the local player's, and O when the O
  identifier is. The code misses this where the roster does not resolve the X
  identifier to the local player: it compares the local player with the result of
  the \<open>x\<close> query, not the identifiers, as \<open>isPlayer\<close> does. In the state below Alice
  is a player, the X identifier is hers, and \<open>gamePiece\<close> returns O.
\<close>

theorem gamePiece_unresolved_roster:
  "isPlayer unresolved_controller
   \<and> ourPlayer unresolved_controller = Some alice
   \<and> roleX unresolved_controller = Some (player_id alice)
   \<and> roleO unresolved_controller \<noteq> Some (player_id alice)
   \<and> x_player unresolved_controller = None
   \<and> gamePiece unresolved_controller = Inr Piece_O"
  by (simp add: unresolved_controller_def sample_defs isPlayer_def roleX_def roleO_def
      gameState_def ourPlayer_id_def gamePiece_def x_player_def)

text \<open>
  Where the roster resolves the local player's identifier to the local player, and
  the two roles are held by different identifiers, \<open>gamePiece\<close> does return the piece
  of the role whose identifier is the local player's.
\<close>

lemma gamePiece_resolved_roster:
  assumes "ourPlayer c = Some p"
    and "find (\<lambda>player. player_id p = player_id player) (players c) = Some p"
    and "roleX c \<noteq> roleO c"
  shows "(roleX c = Some (player_id p) \<longrightarrow> gamePiece c = Inr Piece_X)
         \<and> (roleO c = Some (player_id p) \<longrightarrow> gamePiece c = Inr Piece_O)"
proof (intro conjI impI)
  assume x: "roleX c = Some (player_id p)"
  then have "x_player c = Some p"
    using assms(2) by (simp add: x_player_def)
  with x assms(1) show "gamePiece c = Inr Piece_X"
    by (simp add: gamePiece_def isPlayer_def ourPlayer_id_def)
next
  assume o: "roleO c = Some (player_id p)"
  with assms(3) have nx: "roleX c \<noteq> Some (player_id p)" by simp
  have "x_player c \<noteq> Some p"
  proof
    assume "x_player c = Some p"
    then have "roleX c = Some (player_id p)"
      unfolding x_player_def by (rule find_Some_holds)
    with nx show False by simp
  qed
  with o assms(1) show "gamePiece c = Inr Piece_O"
    by (simp add: gamePiece_def isPlayer_def ourPlayer_id_def)
qed

text \<open>
  Claim C6. \<open>gamePiece\<close> throws \<open>PLAYER_NOT_IN_GAME_ERROR\<close> exactly when \<open>isPlayer\<close>
  is false, that is, when the local player's identifier matches neither the X nor the
  O identifier of the snapshot; it throws nothing else.
\<close>

theorem gamePiece_throws_iff:
  "(gamePiece c = Inl (Error PLAYER_NOT_IN_GAME_ERROR)) = (\<not> isPlayer c)
   \<and> (\<not> isPlayer c) = (roleX c \<noteq> ourPlayer_id c \<and> roleO c \<noteq> ourPlayer_id c)
   \<and> (\<forall>e. gamePiece c = Inl e \<longrightarrow> e = Error PLAYER_NOT_IN_GAME_ERROR)
   \<and> (\<forall>p. ourPlayer c = Some p \<longrightarrow>
          (gamePiece c = Inl (Error PLAYER_NOT_IN_GAME_ERROR))
            = (roleX c \<noteq> Some (player_id p) \<and> roleO c \<noteq> Some (player_id p)))"
proof (intro conjI allI impI)
  show t: "(gamePiece c = Inl (Error PLAYER_NOT_IN_GAME_ERROR)) = (\<not> isPlayer c)"
    by (simp add: gamePiece_def)
  show n: "(\<not> isPlayer c) = (roleX c \<noteq> ourPlayer_id c \<and> roleO c \<noteq> ourPlayer_id c)"
    by (simp add: isPlayer_def)
  show "e = Error PLAYER_NOT_IN_GAME_ERROR" if "gamePiece c = Inl e" for e
    using that by (simp add: gamePiece_def split: if_splits)
  show "(gamePiece c = Inl (Error PLAYER_NOT_IN_GAME_ERROR))
          = (roleX c \<noteq> Some (player_id p) \<and> roleO c \<noteq> Some (player_id p))"
    if "ourPlayer c = Some p" for p
    using that by (simp add: t n ourPlayer_id_def)
qed

theorem gamePiece_throws_iff_witness:
  "ourPlayer spectator_controller = Some \<lparr>ref = 3, player_id = ''carol''\<rparr>
   \<and> roleX spectator_controller \<noteq> Some ''carol'' \<and> roleO spectator_controller \<noteq> Some ''carol''
   \<and> gamePiece spectator_controller = Inl (Error PLAYER_NOT_IN_GAME_ERROR)"
proof -
  have p: "ourPlayer spectator_controller = Some \<lparr>ref = 3, player_id = ''carol''\<rparr>"
    by (simp add: spectator_controller_def)
  have r: "roleX spectator_controller \<noteq> Some ''carol''"
    "roleO spectator_controller \<noteq> Some ''carol''"
    by (simp_all add: spectator_controller_def sample_defs roleX_def roleO_def gameState_def)
  have "(gamePiece spectator_controller = Inl (Error PLAYER_NOT_IN_GAME_ERROR))
          = (roleX spectator_controller \<noteq> Some ''carol''
             \<and> roleO spectator_controller \<noteq> Some ''carol'')"
    using gamePiece_throws_iff [of spectator_controller, THEN conjunct2, THEN conjunct2,
        THEN conjunct2, rule_format, OF p]
    by simp
  with p r show ?thesis by blast
qed

section \<open>Failures of makeMove\<close>

text \<open>
  Claim C8. With no game attached, \<open>makeMove\<close> fails with
  \<open>NO_GAME_IN_PROGRESS_ERROR\<close> and hands nothing to the command channel. With a game
  but no instance identifier attached (\<open>undefined\<close>, or empty), it fails with an error
  of its own, different from the other two, again before the channel is called.
\<close>

theorem makeMove_no_game:
  "(game (model c) = None \<longrightarrow>
      makeMove send c r k = (Inl (Error NO_GAME_IN_PROGRESS_ERROR), []))
   \<and> (game (model c) \<noteq> None \<and> \<not> truthy (instanceID c) \<longrightarrow>
      makeMove send c r k = (Inl (Error ''Instance ID is undefined''), []))
   \<and> ''Instance ID is undefined'' \<noteq> NO_GAME_IN_PROGRESS_ERROR
   \<and> ''Instance ID is undefined'' \<noteq> PLAYER_NOT_IN_GAME_ERROR"
  by (auto simp: makeMove_def truthy_def NO_GAME_IN_PROGRESS_ERROR_def
      PLAYER_NOT_IN_GAME_ERROR_def split: option.splits)

theorem makeMove_no_game_witness:
  "game (model no_game_controller) = None
   \<and> makeMove accept_all no_game_controller 1 1 = (Inl (Error ''No game in progress''), [])
   \<and> game (model unattached_controller) \<noteq> None
   \<and> \<not> truthy (instanceID unattached_controller)
   \<and> makeMove accept_all unattached_controller 1 1
       = (Inl (Error ''Instance ID is undefined''), [])"
  using makeMove_no_game [of no_game_controller accept_all 1 1]
    makeMove_no_game [of unattached_controller accept_all 1 1]
  by (simp add: no_game_controller_def unattached_controller_def sample_defs truthy_def
      NO_GAME_IN_PROGRESS_ERROR_def)

text \<open>
  Claim C10. With a game and an instance identifier attached (defined and not empty,
  as \<open>makeMove\<close> tests it), and a local player who is not a player in the game,
  \<open>makeMove\<close> fails with \<open>PLAYER_NOT_IN_GAME_ERROR\<close>, raised by \<open>gamePiece\<close>, and
  hands nothing to the command channel.
\<close>

theorem makeMove_not_player:
  assumes "game (model c) \<noteq> None" and "truthy (instanceID c)" and "\<not> isPlayer c"
  shows "gamePiece c = Inl (Error PLAYER_NOT_IN_GAME_ERROR)
         \<and> makeMove send c r k = (Inl (Error PLAYER_NOT_IN_GAME_ERROR), [])"
proof -
  from assms(3) have g: "gamePiece c = Inl (Error PLAYER_NOT_IN_GAME_ERROR)"
    by (simp add: gamePiece_def)
  from assms(1) obtain a where a: "game (model c) = Some a" by blast
  from assms(2) obtain inst where i: "instanceID c = Some inst" "inst \<noteq> []"
    by (auto simp: truthy_def split: option.splits)
  show ?thesis by (simp add: makeMove_def a i g)
qed

theorem makeMove_not_player_witness:
  "game (model spectator_controller) \<noteq> None \<and> truthy (instanceID spectator_controller)
   \<and> \<not> isPlayer spectator_controller
   \<and> makeMove accept_all spectator_controller 0 2 = (Inl (Error ''Player is not in game''), [])"
proof -
  have g: "game (model spectator_controller) \<noteq> None"
    and i: "truthy (instanceID spectator_controller)"
    and p: "\<not> isPlayer spectator_controller"
    by (simp_all add: spectator_controller_def sample_defs truthy_def isPlayer_def roleX_def
        roleO_def gameState_def ourPlayer_id_def)
  show ?thesis
    using g i p makeMove_not_player [OF g i p, of accept_all 0 2]
    by (simp add: PLAYER_NOT_IN_GAME_ERROR_def)
qed

section \<open>Updates\<close>

lemma stringify_cell_cancel:
  "(stringify_cell a @ u = stringify_cell b @ v) = (a = b \<and> u = v)"
  by (cases a; cases b) (auto simp: stringify_cell_def split: GamePiece.splits)

lemma length3: "length xs = 3 \<Longrightarrow> \<exists>a b c. xs = [a, b, c]"
  by (cases xs; simp; rename_tac ys; case_tac ys; simp; rename_tac zs; case_tac zs; simp)

lemma is_grid_cells:
  assumes "is_grid b"
  obtains a1 a2 a3 b1 b2 b3 c1 c2 c3 where "b = [[a1, a2, a3], [b1, b2, b3], [c1, c2, c3]]"
proof -
  from assms obtain r1 r2 r3 where b: "b = [r1, r2, r3]"
    using length3 [of b] by (auto simp: is_grid_def)
  with assms have "length r1 = 3" "length r2 = 3" "length r3 = 3"
    by (simp_all add: is_grid_def)
  then show thesis
    using length3 [of r1] length3 [of r2] length3 [of r3] b that by blast
qed

lemma stringify_row_cancel:
  "(stringify_array [stringify_cell a1, stringify_cell a2, stringify_cell a3] @ u
      = stringify_array [stringify_cell b1, stringify_cell b2, stringify_cell b3] @ v)
   = (a1 = b1 \<and> a2 = b2 \<and> a3 = b3 \<and> u = v)"
  by (auto simp: stringify_array_def stringify_cell_cancel)

lemma JSON_stringify_grid:
  "JSON_stringify [[a1, a2, a3], [b1, b2, b3], [c1, c2, c3]] =
     CHR ''['' # stringify_array [stringify_cell a1, stringify_cell a2, stringify_cell a3] @
     CHR '','' # stringify_array [stringify_cell b1, stringify_cell b2, stringify_cell b3] @
     CHR '','' # stringify_array [stringify_cell c1, stringify_cell c2, stringify_cell c3] @
     '']''"
  by (simp add: JSON_stringify_def stringify_array_def [of "[_, _, _]"])

lemma JSON_stringify_inj:
  assumes "is_grid a" "is_grid b" "JSON_stringify a = JSON_stringify b"
  shows "a = b"
proof -
  obtain a1 a2 a3 a4 a5 a6 a7 a8 a9
    where a: "a = [[a1, a2, a3], [a4, a5, a6], [a7, a8, a9]]"
    using assms(1) by (rule is_grid_cells)
  obtain b1 b2 b3 b4 b5 b6 b7 b8 b9
    where b: "b = [[b1, b2, b3], [b4, b5, b6], [b7, b8, b9]]"
    using assms(2) by (rule is_grid_cells)
  from assms(3) show ?thesis
    unfolding a b JSON_stringify_grid
    by (simp only: list.inject stringify_row_cancel simp_thms)
qed

lemma grid_differs:
  assumes "is_grid a" "is_grid b"
  shows "(a \<noteq> b) = (\<exists>r<3. \<exists>k<3. a ! r ! k \<noteq> b ! r ! k)"
proof -
  have "(a = b) = (\<forall>r<3. a ! r = b ! r)"
    using assms by (auto simp: is_grid_def list_eq_iff_nth_eq)
  also have "\<dots> = (\<forall>r<3. \<forall>k<3. a ! r ! k = b ! r ! k)"
    using assms by (auto simp: is_grid_row list_eq_iff_nth_eq)
  finally show ?thesis by blast
qed

lemma grid_moves_model_moves: "grid_moves (model c) \<Longrightarrow> list_all in_grid (model_moves c)"
  by (simp add: grid_moves_def model_moves_def gameState_def split: option.splits)

lemma board_grid_moves: "grid_moves (model c) \<Longrightarrow> board c = Inr (deriveBoard (model_moves c))"
  by (rule board_deriveBoard [OF grid_moves_model_moves])

lemma model_after_super: "model (after_super ext c newModel) = newModel"
  by (simp add: after_super_def super_updateFrom_def)

lemma JSON_stringify_deriveBoard:
  "(JSON_stringify (deriveBoard ms) \<noteq> JSON_stringify (deriveBoard ns))
     = (deriveBoard ms \<noteq> deriveBoard ns)"
  using JSON_stringify_inj [OF is_grid_deriveBoard is_grid_deriveBoard, of ms ns] by auto

lemma updateFrom_grid:
  assumes "grid_moves (model c)" and "grid_moves newModel"
  shows "updateFrom ext c newModel =
           (Inr (), after_super ext c newModel,
            map baseEvent (base_events ext)
            @ (if deriveBoard (model_moves c) \<noteq> deriveBoard (model_moves (after_super ext c newModel))
               then [boardChanged (deriveBoard (model_moves (after_super ext c newModel)))] else [])
            @ (if whoseTurn_id c \<noteq> whoseTurn_id (after_super ext c newModel)
               then [turnChanged (isOurTurn (after_super ext c newModel))] else []))"
proof -
  let ?c' = "after_super ext c newModel"
  have old: "board c = Inr (deriveBoard (model_moves c))"
    by (rule board_grid_moves [OF assms(1)])
  have "grid_moves (model ?c')" using assms(2) by (simp add: model_after_super)
  then have new: "board ?c' = Inr (deriveBoard (model_moves ?c'))"
    by (rule board_grid_moves)
  have sup: "super_updateFrom ext c newModel = (?c', map baseEvent (base_events ext))"
    by (simp add: after_super_def super_updateFrom_def)
  show ?thesis
    by (simp add: updateFrom_def old sup new Let_def JSON_stringify_deriveBoard)
qed

lemma filter_boardChanged_base: "filter is_boardChanged (map baseEvent es) = []"
  by (induction es) (simp_all add: is_boardChanged_def)

lemma filter_turnChanged_base: "filter is_turnChanged (map baseEvent es) = []"
  by (induction es) (simp_all add: is_turnChanged_def)

lemma filter_events_boardChanged:
  "filter is_boardChanged
     (map baseEvent es @ (if P then [boardChanged b] else []) @ (if Q then [turnChanged t] else []))
   = (if P then [boardChanged b] else [])"
  by (simp add: filter_boardChanged_base is_boardChanged_def)

lemma filter_events_turnChanged:
  "filter is_turnChanged
     (map baseEvent es @ (if P then [boardChanged b] else []) @ (if Q then [turnChanged t] else []))
   = (if Q then [turnChanged t] else [])"
  by (simp add: filter_turnChanged_base is_turnChanged_def)

lemma model_moves_same_game: "game (model c') = game (model c) \<Longrightarrow> model_moves c' = model_moves c"
  by (simp add: model_moves_def gameState_def)

lemma updateFrom_combinations:
  "\<forall>B T. \<exists>c0 m0. grid_moves (model c0) \<and> grid_moves m0
      \<and> (filter is_boardChanged (snd (snd (updateFrom sample_base c0 m0))) \<noteq> []) = B
      \<and> (filter is_turnChanged (snd (snd (updateFrom sample_base c0 m0))) \<noteq> []) = T"
proof (intro allI)
  fix B T
  let ?P = "\<lambda>c0 m0 B T. grid_moves (model c0) \<and> grid_moves m0
      \<and> (filter is_boardChanged (snd (snd (updateFrom sample_base c0 m0))) \<noteq> []) = B
      \<and> (filter is_turnChanged (snd (snd (updateFrom sample_base c0 m0))) \<noteq> []) = T"
  have g: "grid_moves (sample_area [] st)" "grid_moves (sample_area three_moves st)"
    "grid_moves ((sample_area [] st)\<lparr>occupants := occ\<rparr>)" for st occ
    by (simp_all add: grid_moves_def sample_area_def three_moves_def in_grid_def)
  have m: "model (sample_controller a) = a" for a
    by (simp add: sample_controller_def)
  have mm: "model_moves (sample_controller (sample_area ms st)) = ms"
    "model_moves (after_super ext c0 (sample_area ms st)) = ms"
    "model_moves (after_super ext c0 ((sample_area ms st)\<lparr>occupants := occ\<rparr>)) = ms"
    for ms st ext c0 occ
    by (simp_all add: model_moves_def gameState_def sample_controller_def sample_area_def
        after_super_def super_updateFrom_def)
  have d: "deriveBoard [] \<noteq> deriveBoard three_moves"
    by (simp add: deriveBoard_def place_def empty_board_def three_moves_def)
  have w: "whoseTurn_id (sample_controller (sample_area [] IN_PROGRESS)) = Some ''alice''"
    "whoseTurn_id (sample_controller (sample_area ms OVER)) = None"
    "whoseTurn_id (after_super sample_base c0 (sample_area ms OVER)) = None"
    "whoseTurn_id (after_super sample_base c0 (sample_area three_moves IN_PROGRESS)) = Some ''bob''"
    "whoseTurn_id (after_super sample_base c0 ((sample_area [] IN_PROGRESS)\<lparr>occupants := occ\<rparr>))
       = Some ''alice''"
    for ms c0 occ
    by (simp_all add: whoseTurn_id_def whoseTurn_def gameState_def moveCount_def model_moves_def
        sample_defs sample_base_def after_super_def super_updateFrom_def truthy_def)
  have tt: "?P (sample_controller (sample_area [] IN_PROGRESS))
              (sample_area three_moves IN_PROGRESS) True True"
    by (simp add: updateFrom_grid g m mm d w filter_boardChanged_base filter_turnChanged_base
        is_boardChanged_def is_turnChanged_def)
  have tf: "?P (sample_controller (sample_area [] OVER)) (sample_area three_moves OVER) True False"
    by (simp add: updateFrom_grid g m mm d w filter_boardChanged_base filter_turnChanged_base
        is_boardChanged_def is_turnChanged_def)
  have ft: "?P (sample_controller (sample_area [] IN_PROGRESS)) (sample_area [] OVER) False True"
    by (simp add: updateFrom_grid g m mm d w filter_boardChanged_base filter_turnChanged_base
        is_boardChanged_def is_turnChanged_def)
  have ff: "?P (sample_controller (sample_area [] IN_PROGRESS))
              ((sample_area [] IN_PROGRESS)\<lparr>occupants := [''alice'']\<rparr>) False False"
    by (simp add: updateFrom_grid g m mm d w filter_boardChanged_base filter_turnChanged_base
        is_boardChanged_def is_turnChanged_def)
  show "\<exists>c0 m0. ?P c0 m0 B T"
    using tt tf ft ff by (cases B; cases T) blast+
qed

text \<open>
  Claim C1. For well-typed old and new models, \<open>_updateFrom\<close> ends normally with the
  new model in place and emits exactly one \<open>boardChanged\<close> event, carrying the new
  board, if the old and the new board differ in some cell, and none if they agree in
  every cell; in particular none when the update leaves the game as it was (say it
  changes the occupants only).
\<close>

theorem updateFrom_boardChanged:
  assumes "grid_moves (model c)" and "grid_moves newModel"
  shows "\<exists>oldBoard newBoard c' evs.
           board c = Inr oldBoard
           \<and> updateFrom ext c newModel = (Inr (), c', evs)
           \<and> model c' = newModel
           \<and> board c' = Inr newBoard
           \<and> filter is_boardChanged evs =
               (if \<exists>r<3. \<exists>k<3. oldBoard ! r ! k \<noteq> newBoard ! r ! k
                then [boardChanged newBoard] else [])
           \<and> (game newModel = game (model c) \<longrightarrow> filter is_boardChanged evs = [])"
proof -
  let ?c' = "after_super ext c newModel"
  let ?ob = "deriveBoard (model_moves c)"
  let ?nb = "deriveBoard (model_moves ?c')"
  let ?evs = "snd (snd (updateFrom ext c newModel))"
  have m: "model ?c' = newModel" by (rule model_after_super)
  have old: "board c = Inr ?ob" by (rule board_grid_moves [OF assms(1)])
  have new: "board ?c' = Inr ?nb" using assms(2) by (intro board_grid_moves) (simp add: m)
  have diff: "(?ob \<noteq> ?nb) = (\<exists>r<3. \<exists>k<3. ?ob ! r ! k \<noteq> ?nb ! r ! k)"
    by (rule grid_differs [OF is_grid_deriveBoard is_grid_deriveBoard])
  have upd: "updateFrom ext c newModel = (Inr (), ?c', ?evs)"
    by (simp add: updateFrom_grid [OF assms])
  have ev: "filter is_boardChanged ?evs = (if ?ob \<noteq> ?nb then [boardChanged ?nb] else [])"
    unfolding updateFrom_grid [OF assms] snd_conv by (rule filter_events_boardChanged)
  have same: "filter is_boardChanged ?evs = []" if "game newModel = game (model c)"
  proof -
    from that have "model_moves ?c' = model_moves c"
      by (intro model_moves_same_game) (simp add: m)
    then show ?thesis by (simp add: ev)
  qed
  from old upd m new ev same show ?thesis
    unfolding diff by blast
qed

theorem updateFrom_boardChanged_witness:
  "grid_moves (model (sample_controller (sample_area [] IN_PROGRESS)))
   \<and> grid_moves (sample_area three_moves IN_PROGRESS)
   \<and> filter is_boardChanged
        (snd (snd (updateFrom sample_base (sample_controller (sample_area [] IN_PROGRESS))
                      (sample_area three_moves IN_PROGRESS))))
      = [boardChanged [[Some Piece_O, None, None], [None, None, Some Piece_O], [None, None, None]]]"
proof -
  let ?c = "sample_controller (sample_area [] IN_PROGRESS)"
  let ?m = "sample_area three_moves IN_PROGRESS"
  have h1: "grid_moves (model ?c)" and h2: "grid_moves ?m"
    by (simp_all add: grid_moves_def sample_defs in_grid_def)
  have b: "board ?c = Inr empty_board"
    by (simp add: board_def model_moves_def gameState_def sample_defs)
  from updateFrom_boardChanged [OF h1 h2, of sample_base]
  obtain oldBoard newBoard c' evs where
    o: "board ?c = Inr oldBoard" and u: "updateFrom sample_base ?c ?m = (Inr (), c', evs)"
    and m: "model c' = ?m" and n: "board c' = Inr newBoard"
    and f: "filter is_boardChanged evs =
               (if \<exists>r<3. \<exists>k<3. oldBoard ! r ! k \<noteq> newBoard ! r ! k
                then [boardChanged newBoard] else [])"
    by blast
  from n m have nb: "newBoard = [[Some Piece_O, None, None], [None, None, Some Piece_O], [None, None, None]]"
    by (simp add: board_def model_moves_def gameState_def sample_defs array_set_def empty_board_def)
  from o b have ob: "oldBoard = empty_board" by simp
  have "\<exists>r<3. \<exists>k<3. oldBoard ! r ! k \<noteq> newBoard ! r ! k"
    unfolding ob nb empty_board_def by (intro exI [of _ 0] conjI) simp_all
  with f u nb h1 h2 show ?thesis by simp
qed

text \<open>
  Claim C2. For well-typed old and new models, \<open>_updateFrom\<close> emits exactly one
  \<open>turnChanged\<close> event, carrying \<open>isOurTurn\<close> of the updated controller, if the
  identifier of the turn owner before the update differs from the one after it
  (an owner appearing or disappearing included), and none if it is the same. Each of
  the two events is emitted at most once, after the events of the base class and
  \<open>boardChanged\<close> before \<open>turnChanged\<close>; and either may be emitted with or without
  the other.
\<close>

theorem updateFrom_turnChanged:
  assumes "grid_moves (model c)" and "grid_moves newModel"
  shows "(\<exists>c' evs.
            updateFrom ext c newModel = (Inr (), c', evs)
            \<and> c' = after_super ext c newModel
            \<and> model c' = newModel
            \<and> filter is_turnChanged evs =
                (if whoseTurn_id c \<noteq> whoseTurn_id c' then [turnChanged (isOurTurn c')] else [])
            \<and> length (filter is_boardChanged evs) \<le> 1
            \<and> length (filter is_turnChanged evs) \<le> 1
            \<and> evs = map baseEvent (base_events ext)
                      @ filter is_boardChanged evs @ filter is_turnChanged evs)
         \<and> (\<forall>B T. \<exists>ext0 c0 m0. grid_moves (model c0) \<and> grid_moves m0
               \<and> (filter is_boardChanged (snd (snd (updateFrom ext0 c0 m0))) \<noteq> []) = B
               \<and> (filter is_turnChanged (snd (snd (updateFrom ext0 c0 m0))) \<noteq> []) = T)"
proof (intro conjI exI)
  let ?c' = "after_super ext c newModel"
  let ?evs = "snd (snd (updateFrom ext c newModel))"
  show "updateFrom ext c newModel = (Inr (), ?c', ?evs)"
    by (simp add: updateFrom_grid [OF assms])
  show "?c' = after_super ext c newModel" ..
  show "model ?c' = newModel" by (rule model_after_super)
  show t: "filter is_turnChanged ?evs =
          (if whoseTurn_id c \<noteq> whoseTurn_id ?c' then [turnChanged (isOurTurn ?c')] else [])"
    unfolding updateFrom_grid [OF assms] snd_conv by (rule filter_events_turnChanged)
  have b: "filter is_boardChanged ?evs =
          (if deriveBoard (model_moves c) \<noteq> deriveBoard (model_moves ?c')
           then [boardChanged (deriveBoard (model_moves ?c'))] else [])"
    unfolding updateFrom_grid [OF assms] snd_conv by (rule filter_events_boardChanged)
  show "length (filter is_boardChanged ?evs) \<le> 1" by (simp add: b)
  show "length (filter is_turnChanged ?evs) \<le> 1" by (simp add: t)
  show "?evs = map baseEvent (base_events ext)
                 @ filter is_boardChanged ?evs @ filter is_turnChanged ?evs"
    unfolding b t by (simp add: updateFrom_grid [OF assms])
  show "\<forall>B T. \<exists>ext0 c0 m0. grid_moves (model c0) \<and> grid_moves m0
               \<and> (filter is_boardChanged (snd (snd (updateFrom ext0 c0 m0))) \<noteq> []) = B
               \<and> (filter is_turnChanged (snd (snd (updateFrom ext0 c0 m0))) \<noteq> []) = T"
    using updateFrom_combinations by blast
qed

theorem updateFrom_turnChanged_witness:
  "grid_moves (model (sample_controller (sample_area [] IN_PROGRESS)))
   \<and> grid_moves (sample_area three_moves IN_PROGRESS)
   \<and> whoseTurn_id (sample_controller (sample_area [] IN_PROGRESS)) = Some ''alice''
   \<and> whoseTurn_id (after_super sample_base (sample_controller (sample_area [] IN_PROGRESS))
                      (sample_area three_moves IN_PROGRESS)) = Some ''bob''
   \<and> filter is_turnChanged
        (snd (snd (updateFrom sample_base (sample_controller (sample_area [] IN_PROGRESS))
                      (sample_area three_moves IN_PROGRESS))))
      = [turnChanged False]"
proof -
  let ?c = "sample_controller (sample_area [] IN_PROGRESS)"
  let ?m = "sample_area three_moves IN_PROGRESS"
  let ?c' = "after_super sample_base ?c ?m"
  have h1: "grid_moves (model ?c)" and h2: "grid_moves ?m"
    by (simp_all add: grid_moves_def sample_defs in_grid_def)
  have w: "whoseTurn_id ?c = Some ''alice''" "whoseTurn_id ?c' = Some ''bob''"
    by (simp_all add: whoseTurn_id_def whoseTurn_def gameState_def moveCount_def model_moves_def
        sample_defs sample_base_def after_super_def super_updateFrom_def truthy_def)
  have i: "isOurTurn ?c' = False"
    by (simp add: isOurTurn_def whoseTurn_def gameState_def moveCount_def model_moves_def
        sample_defs sample_base_def after_super_def super_updateFrom_def truthy_def)
  from updateFrom_turnChanged [OF h1 h2, of sample_base]
  obtain c' evs where u: "updateFrom sample_base ?c ?m = (Inr (), c', evs)"
    and c': "c' = ?c'"
    and f: "filter is_turnChanged evs =
              (if whoseTurn_id ?c \<noteq> whoseTurn_id c' then [turnChanged (isOurTurn c')] else [])"
    by blast
  from f have "filter is_turnChanged evs = [turnChanged False]"
    unfolding c' w i by simp
  with u h1 h2 w show ?thesis by simp
qed

end
